theory Spec2Isabelle
  imports Main "HOL-Library.Word"
begin

section \<open>Python values shared by the modules\<close>

text \<open>
  A Python \<open>str\<close> is a sequence of Unicode code points, so it is modelled as a list of
  naturals; \<open>str_of\<close> turns an ASCII literal of the source into that form.
\<close>

type_synonym pystr = "nat list"

definition str_of :: "string \<Rightarrow> pystr" where
  "str_of s = map of_char s"

text \<open>
  Values that travel as payloads and that \<open>json.loads\<close> produces. A \<open>dict\<close> keeps its
  insertion order, so it is an association list. Numbers are integers: no function of the
  core computes with a float.
\<close>

datatype pyval =
    PNone
  | PBool bool
  | PNum int
  | PStr pystr
  | PList "pyval list"
  | PDict "(pystr \<times> pyval) list"

text \<open>Python truth value of an object, as \<open>or\<close> and \<open>not\<close> test it.\<close>

fun truthy :: "pyval \<Rightarrow> bool" where
  "truthy PNone = False"
| "truthy (PBool b) = b"
| "truthy (PNum n) = (n \<noteq> 0)"
| "truthy (PStr s) = (s \<noteq> [])"
| "truthy (PList xs) = (xs \<noteq> [])"
| "truthy (PDict kvs) = (kvs \<noteq> [])"

text \<open>
  Exceptions that an \<open>except Exception\<close> clause catches: the ones the source raises itself and
  the ones that come out of a handler or of the BLE library, identified by a number. Task
  cancellation and interpreter exit, which Python keeps outside \<open>Exception\<close>, are not errors
  of a handler or of a call and are not modelled.
\<close>

datatype exn =
    RuntimeError pystr
  | AttributeError pystr
  | TypeError pystr
  | OtherError nat

section \<open>core/event\_bus.py\<close>

text \<open>
  \<open>EventBus._subs\<close> is a \<open>defaultdict(list)\<close> from topic to the list of subscribed handlers.
  A handler is an arbitrary coroutine: it may return or raise, change application state and
  call back into the bus. The bus stores handler objects; the model stores their identities
  (\<open>hid\<close>) and takes the behaviour of each handler object as the table \<open>impl\<close>, so that a handler
  can act on the very subscription table it is stored in.
\<close>

type_synonym hid = nat

record 'u world =
  subs :: "pystr \<rightharpoonup> hid list"
  app :: 'u

type_synonym 'u handler = "pyval \<Rightarrow> 'u world \<Rightarrow> (exn + unit) \<times> 'u world"

text \<open>\<open>self._subs[topic].append(handler)\<close>: the defaultdict creates the empty list on first use.\<close>

definition subscribe :: "pystr \<Rightarrow> hid \<Rightarrow> 'u world \<Rightarrow> 'u world" where
  "subscribe topic h w =
     w\<lparr>subs := (subs w)(topic \<mapsto> (case subs w topic of None \<Rightarrow> [] | Some hs \<Rightarrow> hs) @ [h])\<rparr>"

text \<open>
  The loop \<open>for h in list(...)\<close> of \<open>publish\<close> over the copied list. Both arms of the
  \<open>try\<close> go on with the next handler. The second component of the result lists the handlers
  that were called, in call order.
\<close>

fun for_handlers ::
  "(hid \<Rightarrow> 'u handler) \<Rightarrow> hid list \<Rightarrow> pyval \<Rightarrow> 'u world \<Rightarrow> (exn + unit) \<times> hid list \<times> 'u world"
where
  "for_handlers impl [] payload w = (Inr (), [], w)"
| "for_handlers impl (h # hs) payload w =
     (case impl h payload w of
        (Inr u, w') \<Rightarrow>
          (case for_handlers impl hs payload w' of (r, called, w'') \<Rightarrow> (r, h # called, w''))
      | (Inl e, w') \<Rightarrow>
          (case for_handlers impl hs payload w' of (r, called, w'') \<Rightarrow> (r, h # called, w'')))"

definition publish ::
  "(hid \<Rightarrow> 'u handler) \<Rightarrow> pystr \<Rightarrow> pyval \<Rightarrow> 'u world \<Rightarrow> (exn + unit) \<times> hid list \<times> 'u world"
where
  "publish impl topic payload w =
     (case subs w topic of
        None \<Rightarrow> (Inr (), [], w)
      | Some hs \<Rightarrow> for_handlers impl hs payload w)"

text \<open>The state in which the handlers of a publish leave the world, one after the other.\<close>

fun run_all :: "(hid \<Rightarrow> 'u handler) \<Rightarrow> hid list \<Rightarrow> pyval \<Rightarrow> 'u world \<Rightarrow> 'u world" where
  "run_all impl [] payload w = w"
| "run_all impl (h # hs) payload w = run_all impl hs payload (snd (impl h payload w))"

section \<open>core/action\_router.py\<close>

text \<open>
  \<open>ActionRouter._handlers\<close> is a plain dict from action name to one handler; the handler acts
  on application state of type \<open>'s\<close>.
\<close>

type_synonym 's action_handler = "pyval \<Rightarrow> 's \<Rightarrow> (exn + unit) \<times> 's"

type_synonym 's router = "pystr \<rightharpoonup> 's action_handler"

definition register_action_handler ::
  "pystr \<Rightarrow> 's action_handler \<Rightarrow> 's router \<Rightarrow> 's router" where
  "register_action_handler action handler r = r(action \<mapsto> handler)"

text \<open>
  \<open>dispatch(action, payload=None)\<close>: an omitted payload is \<open>PNone\<close>. The handler is awaited
  with \<open>payload or {"action": action}\<close>, and whatever it raises leaves \<open>dispatch\<close>.
\<close>

definition dispatch :: "'s router \<Rightarrow> pystr \<Rightarrow> pyval \<Rightarrow> 's \<Rightarrow> (exn + unit) \<times> 's" where
  "dispatch r action payload s =
     (case r action of
        None \<Rightarrow> (Inr (), s)
      | Some h \<Rightarrow>
          h (if truthy payload then payload else PDict [(str_of ''action'', PStr action)]) s)"

section \<open>Text operations of the Python library\<close>

text \<open>
  \<open>str.strip()\<close> without argument removes leading and trailing whitespace, where whitespace
  is what \<open>str.isspace\<close> accepts: the ASCII separators and the Unicode space characters.
\<close>

definition isspace :: "nat \<Rightarrow> bool" where
  "isspace c \<longleftrightarrow>
     (9 \<le> c \<and> c \<le> 13) \<or> (28 \<le> c \<and> c \<le> 32) \<or> c = 133 \<or> c = 160 \<or> c = 5760
     \<or> (8192 \<le> c \<and> c \<le> 8202) \<or> c = 8232 \<or> c = 8233 \<or> c = 8239 \<or> c = 8287 \<or> c = 12288"

definition strip :: "pystr \<Rightarrow> pystr" where
  "strip s = rev (dropWhile isspace (rev (dropWhile isspace s)))"

text \<open>
  \<open>str.lower()\<close>: on a string of ASCII characters it maps \<open>A\<close>..\<open>Z\<close> to \<open>a\<close>..\<open>z\<close>. On any
  other string the result comes from the Unicode case tables, which are taken as the
  parameter \<open>ulower\<close>.
\<close>

definition lower :: "(pystr \<Rightarrow> pystr) \<Rightarrow> pystr \<Rightarrow> pystr" where
  "lower ulower s =
     (if \<forall>c \<in> set s. c < 128
      then map (\<lambda>c. if 65 \<le> c \<and> c \<le> 90 then c + 32 else c) s
      else ulower s)"

text \<open>
  \<open>bytes.decode("utf-8", errors="ignore")\<close> on the byte values. A well-formed sequence gives
  its code point. At a byte that cannot start a sequence, or after a prefix that the next byte
  cannot continue, the bytes read so far for that sequence are dropped and decoding goes on
  with the next byte; a sequence cut off by the end of the data is dropped. It never raises.
\<close>

definition cont :: "nat \<Rightarrow> bool" where
  "cont b \<longleftrightarrow> 128 \<le> b \<and> b < 192"

definition second_ok :: "nat \<Rightarrow> nat \<Rightarrow> bool" where
  "second_ok b0 b1 \<longleftrightarrow>
     cont b1 \<and> \<not> (b0 = 224 \<and> b1 < 160) \<and> \<not> (b0 = 237 \<and> 160 \<le> b1)
     \<and> \<not> (b0 = 240 \<and> b1 < 144) \<and> \<not> (b0 = 244 \<and> 144 \<le> b1)"

fun utf8_ignore :: "nat list \<Rightarrow> pystr" where
  "utf8_ignore [] = []"
| "utf8_ignore (b0 # rest) =
     (if b0 < 128 then b0 # utf8_ignore rest
      else if b0 < 194 \<or> 245 \<le> b0 then utf8_ignore rest
      else if b0 < 224 then
        (case rest of
           [] \<Rightarrow> []
         | b1 # r1 \<Rightarrow>
             if cont b1 then ((b0 - 192) * 64 + (b1 - 128)) # utf8_ignore r1
             else utf8_ignore rest)
      else if b0 < 240 then
        (case rest of
           [] \<Rightarrow> []
         | b1 # r1 \<Rightarrow>
             if \<not> second_ok b0 b1 then utf8_ignore rest
             else (case r1 of
                     [] \<Rightarrow> []
                   | b2 # r2 \<Rightarrow>
                       if cont b2
                       then ((b0 - 224) * 4096 + (b1 - 128) * 64 + (b2 - 128)) # utf8_ignore r2
                       else utf8_ignore r1))
      else
        (case rest of
           [] \<Rightarrow> []
         | b1 # r1 \<Rightarrow>
             if \<not> second_ok b0 b1 then utf8_ignore rest
             else (case r1 of
                     [] \<Rightarrow> []
                   | b2 # r2 \<Rightarrow>
                       if \<not> cont b2 then utf8_ignore r1
                       else (case r2 of
                               [] \<Rightarrow> []
                             | b3 # r3 \<Rightarrow>
                                 if cont b3
                                 then ((b0 - 240) * 262144 + (b1 - 128) * 4096
                                        + (b2 - 128) * 64 + (b3 - 128)) # utf8_ignore r3
                                 else utf8_ignore r2))))"

definition decode :: "8 word list \<Rightarrow> pystr" where
  "decode data = utf8_ignore (map unat data)"

text \<open>\<open>bytearray.hex()\<close>: two lower-case hexadecimal digits for each byte.\<close>

definition hexdigit :: "nat \<Rightarrow> nat" where
  "hexdigit n = (if n < 10 then 48 + n else 87 + n)"

definition hex :: "8 word list \<Rightarrow> pystr" where
  "hex data = concat (map (\<lambda>b. [hexdigit (unat b div 16), hexdigit (unat b mod 16)]) data)"

section \<open>ble/ring\_controller.py: the notification callback\<close>

text \<open>
  The callback \<open>_cb\<close> that \<open>RingController.subscribe\<close> hands to the BLE client. Each
  \<open>asyncio.create_task\<close> schedules one \<open>bus.publish(topic, payload)\<close>; the event loop starts
  tasks in the order of their creation, so the result is the list of scheduled publishes in
  that order. The \<open>except\<close> arm around the decoding is never taken, since decoding with
  \<open>errors="ignore"\<close> does not raise.
\<close>

definition cb :: "(pystr \<Rightarrow> pystr) \<Rightarrow> pystr \<Rightarrow> 8 word list \<Rightarrow> (pystr \<times> pyval) list" where
  "cb ulower char_uuid data =
     (let txt = lower ulower (strip (decode data)) in
      (str_of ''raw_notify'',
         PDict [(str_of ''uuid'', PStr char_uuid), (str_of ''data_hex'', PStr (hex data))])
      # (if txt \<in> set [str_of ''single'', str_of ''button_single'', str_of ''tap'']
         then [(str_of ''button_single'',
                  PDict [(str_of ''uuid'', PStr char_uuid), (str_of ''text'', PStr txt)])]
         else if txt \<in> set [str_of ''double'', str_of ''button_double'', str_of ''dbl'']
         then [(str_of ''button_double'',
                  PDict [(str_of ''uuid'', PStr char_uuid), (str_of ''text'', PStr txt)])]
         else if txt \<in> set [str_of ''long'', str_of ''button_long'', str_of ''hold'']
         then [(str_of ''button_long'',
                  PDict [(str_of ''uuid'', PStr char_uuid), (str_of ''text'', PStr txt)])]
         else []))"

section \<open>ble/ble\_manager.py\<close>

text \<open>
  What the BLE library hands to the code: a \<open>BLEDevice\<close> with its address and optional name,
  and the \<open>AdvertisementData\<close> of one advertisement, whose \<open>local_name\<close> and \<open>rssi\<close> may
  be absent.
\<close>

record BLEDevice =
  dev_address :: pystr
  dev_name :: "pystr option"

record AdvertisementData =
  local_name :: "pystr option"
  adv_rssi :: "int option"

text \<open>
  \<open>DiscoveredDevice\<close> is declared as a class with three annotated names and nothing else:
  it has no decorator and defines no \<open>__init__\<close>. An instance is a bare object without
  attributes, and calling the class with arguments raises \<open>TypeError\<close>, as every class
  does that takes its constructor from \<open>object\<close>.
\<close>

datatype DiscoveredDevice = DiscoveredDevice_object

definition DiscoveredDevice_call :: "pystr \<Rightarrow> pystr \<Rightarrow> int \<Rightarrow> exn + DiscoveredDevice" where
  "DiscoveredDevice_call addr nm r =
     Inl (TypeError (str_of ''DiscoveredDevice() takes no arguments''))"

text \<open>
  The detection callback of \<open>scan\<close>: \<open>found[device.address] = (device, adv)\<close>. Assigning to a
  key that a dict already has keeps the key's place and replaces the value; a new key goes
  to the end.
\<close>

fun dict_set :: "'k \<Rightarrow> 'v \<Rightarrow> ('k \<times> 'v) list \<Rightarrow> ('k \<times> 'v) list" where
  "dict_set k v [] = [(k, v)]"
| "dict_set k v ((k', v') # kvs) =
     (if k' = k then (k, v) # kvs else (k', v') # dict_set k v kvs)"

definition detection_cb ::
  "BLEDevice \<times> AdvertisementData \<Rightarrow> (pystr \<times> BLEDevice \<times> AdvertisementData) list
     \<Rightarrow> (pystr \<times> BLEDevice \<times> AdvertisementData) list" where
  "detection_cb seen found = dict_set (dev_address (fst seen)) seen found"

text \<open>\<open>(adv.local_name or dev.name or "").strip()\<close> and \<open>int(getattr(adv, "rssi", 0) or 0)\<close>.\<close>

definition display_name :: "BLEDevice \<times> AdvertisementData \<Rightarrow> pystr" where
  "display_name seen =
     strip (case local_name (snd seen) of
              Some n \<Rightarrow> if n \<noteq> [] then n
                        else (case dev_name (fst seen) of None \<Rightarrow> [] | Some d \<Rightarrow> d)
            | None \<Rightarrow> (case dev_name (fst seen) of None \<Rightarrow> [] | Some d \<Rightarrow> d))"

definition signal :: "BLEDevice \<times> AdvertisementData \<Rightarrow> int" where
  "signal seen = (case adv_rssi (snd seen) of None \<Rightarrow> 0 | Some r \<Rightarrow> r)"

text \<open>
  The loop of \<open>scan\<close> over \<open>found.items()\<close>: name and RSSI are computed, then the class is
  called with them as keywords and the result is appended. What the call raises leaves the
  loop and \<open>scan\<close>.
\<close>

fun collect ::
  "(pystr \<times> BLEDevice \<times> AdvertisementData) list \<Rightarrow> DiscoveredDevice list
     \<Rightarrow> exn + DiscoveredDevice list" where
  "collect [] out = Inr out"
| "collect (entry # rest) out =
     (case DiscoveredDevice_call (fst entry) (display_name (snd entry)) (signal (snd entry)) of
        Inl e \<Rightarrow> Inl e
      | Inr d \<Rightarrow> collect rest (out @ [d]))"

text \<open>
  \<open>out.sort(key=lambda d: d.rssi, reverse=True)\<close>: the key is computed for every element, and
  reading \<open>rssi\<close> from a bare object raises \<open>AttributeError\<close>; an empty list is left as it is.
\<close>

definition sort_by_rssi :: "DiscoveredDevice list \<Rightarrow> exn + DiscoveredDevice list" where
  "sort_by_rssi out =
     (case out of
        [] \<Rightarrow> Inr []
      | d # ds \<Rightarrow> Inl (AttributeError (str_of ''DiscoveredDevice'')))"

text \<open>
  What the scanner did during the scan: it raised (while starting, sleeping or stopping), or it
  ran and called the detection callback for these advertisements, in this order. \<open>scan\<close> has no
  \<open>except\<close>, so every error passes through.
\<close>

datatype scanner_run =
    ScannerRaised exn
  | Observed "(BLEDevice \<times> AdvertisementData) list"

definition scan :: "scanner_run \<Rightarrow> exn + DiscoveredDevice list" where
  "scan run =
     (case run of
        ScannerRaised e \<Rightarrow> Inl e
      | Observed seen \<Rightarrow>
          (case collect (fold detection_cb seen []) [] of
             Inl e \<Rightarrow> Inl e
           | Inr out \<Rightarrow> sort_by_rssi out))"

text \<open>
  A \<open>BleakClient\<close> as the code uses it: whether it reports to be connected, and its GATT
  services, whose reading is a call into the library.
\<close>

record GATTCharacteristic =
  c_uuid :: pystr
  c_properties :: "pystr list option"
  c_description :: "pystr option"

record GATTService =
  s_uuid :: pystr
  s_description :: "pystr option"
  characteristics :: "GATTCharacteristic list"

record BleakClient =
  is_connected :: bool
  services :: "exn + GATTService list"

text \<open>The manager's one attribute \<open>_client\<close>, written here \<open>client\<close>.\<close>

record BLEManager =
  client :: "BleakClient option"

text \<open>The argument \<open>device or address\<close> that a client is built for.\<close>

datatype target = ByDevice BLEDevice | ByAddress pystr

definition device_or :: "BLEDevice option \<Rightarrow> pystr \<Rightarrow> target" where
  "device_or device addr = (case device of Some d \<Rightarrow> ByDevice d | None \<Rightarrow> ByAddress addr)"

text \<open>
  The library calls of \<open>connect\<close> and \<open>disconnect\<close>. A call either raises or returns; what the
  \<open>k\<close>-th resolution and the \<open>k\<close>-th connection attempt of one \<open>connect\<close> do is given by the
  transport. A connection attempt that returns leaves the client in the state it returns.
  Timeouts are in milliseconds.
\<close>

record transport =
  find_device_by_address :: "nat \<Rightarrow> pystr \<Rightarrow> nat \<Rightarrow> exn + BLEDevice option"
  client_connect :: "nat \<Rightarrow> target \<Rightarrow> nat \<Rightarrow> exn + BleakClient"
  client_disconnect :: "BleakClient \<Rightarrow> exn option"

text \<open>The library and timer calls a function made, in order.\<close>

datatype ble_call =
    CallDisconnect
  | CallFind pystr nat
  | CallConnect target nat
  | CallSleep nat

text \<open>
  \<open>disconnect\<close>: nothing to do without a client; otherwise the client is disconnected and, by
  the \<open>finally\<close>, forgotten even when that raises.
\<close>

definition disconnect :: "transport \<Rightarrow> BLEManager \<Rightarrow> (exn + unit) \<times> BLEManager \<times> ble_call list" where
  "disconnect T m =
     (case client m of
        None \<Rightarrow> (Inr (), m, [])
      | Some c \<Rightarrow>
          (case client_disconnect T c of
             None \<Rightarrow> (Inr (), m\<lparr>client := None\<rparr>, [CallDisconnect])
           | Some e \<Rightarrow> (Inl e, m\<lparr>client := None\<rparr>, [CallDisconnect])))"

text \<open>The end of \<open>connect\<close>, from \<open>if not client.is_connected\<close> on.\<close>

definition connected_or_raise ::
  "pystr \<Rightarrow> BleakClient \<Rightarrow> BLEManager \<Rightarrow> ble_call list
     \<Rightarrow> (exn + BleakClient) \<times> BLEManager \<times> ble_call list" where
  "connected_or_raise addr c m calls =
     (if \<not> is_connected c
      then (Inl (RuntimeError (str_of ''Failed to connect to '' @ addr)), m, calls)
      else (Inr c, m\<lparr>client := Some c\<rparr>, calls))"

text \<open>The target of the first attempt: a failed resolution counts as no device.\<close>

definition first_target :: "transport \<Rightarrow> pystr \<Rightarrow> nat \<Rightarrow> target" where
  "first_target T addr timeout =
     device_or (case find_device_by_address T 0 addr timeout of
                  Inl e \<Rightarrow> None
                | Inr device \<Rightarrow> device) addr"

definition connect ::
  "transport \<Rightarrow> pystr \<Rightarrow> nat \<Rightarrow> BLEManager
     \<Rightarrow> (exn + BleakClient) \<times> BLEManager \<times> ble_call list" where
  "connect T addr timeout m =
     (case disconnect T m of
        (Inl e, m1, calls0) \<Rightarrow> (Inl e, m1, calls0)
      | (Inr u, m1, calls0) \<Rightarrow>
          (let t1 = first_target T addr timeout;
               calls1 = calls0 @ [CallFind addr timeout, CallConnect t1 timeout]
           in case client_connect T 0 t1 timeout of
                Inr c \<Rightarrow> connected_or_raise addr c m1 calls1
              | Inl first_err \<Rightarrow>
                  (case find_device_by_address T 1 addr timeout of
                     Inl e2 \<Rightarrow>
                       (Inl first_err, m1, calls1 @ [CallSleep 500, CallFind addr timeout])
                   | Inr device2 \<Rightarrow>
                       (let t2 = device_or device2 addr;
                            calls2 = calls1 @ [CallSleep 500, CallFind addr timeout,
                                               CallConnect t2 timeout]
                        in case client_connect T 1 t2 timeout of
                             Inl e2 \<Rightarrow> (Inl first_err, m1, calls2)
                           | Inr c2 \<Rightarrow> connected_or_raise addr c2 m1 calls2))))"

section \<open>ble/ring\_controller.py: GATT summary\<close>

text \<open>
  \<open>BLEManager\<close> defines \<open>client\<close> as an ordinary method (\<open>def client(self)\<close>, without a
  property decorator). The controller writes \<open>self.ble.client\<close> without calling it, so what it
  gets is the bound method: an object that is not \<open>None\<close> and has no attribute \<open>services\<close>.
  \<open>attribute_value\<close> lists what the name \<open>client\<close> in \<open>gatt_summary\<close> could hold, and
  \<open>ble_client\<close> is what the attribute access gives.
\<close>

datatype attribute_value = NoneValue | BoundMethod | ClientValue BleakClient

definition ble_client :: "BLEManager \<Rightarrow> attribute_value" where
  "ble_client m = BoundMethod"

text \<open>
  \<open>gatt_summary\<close> builds one dict for each service of the client. It changes nothing, so it
  returns no state. The function has no \<open>except\<close>: what reading \<open>client.services\<close> raises
  passes through.
\<close>

definition characteristic_dict :: "GATTCharacteristic \<Rightarrow> pyval" where
  "characteristic_dict c =
     PDict [(str_of ''uuid'', PStr (c_uuid c)),
            (str_of ''properties'',
               PList (map PStr (case c_properties c of None \<Rightarrow> [] | Some ps \<Rightarrow> ps))),
            (str_of ''description'',
               PStr (case c_description c of None \<Rightarrow> [] | Some d \<Rightarrow> d))]"

definition service_dict :: "GATTService \<Rightarrow> pyval" where
  "service_dict sv =
     PDict [(str_of ''uuid'', PStr (s_uuid sv)),
            (str_of ''description'',
               PStr (case s_description sv of None \<Rightarrow> [] | Some d \<Rightarrow> d)),
            (str_of ''characteristics'', PList (map characteristic_dict (characteristics sv)))]"

definition gatt_summary :: "BLEManager \<Rightarrow> exn + pyval list" where
  "gatt_summary m =
     (case ble_client m of
        NoneValue \<Rightarrow> Inr []
      | BoundMethod \<Rightarrow> Inl (AttributeError (str_of ''method''))
      | ClientValue c \<Rightarrow>
          (case services c of
             Inl e \<Rightarrow> Inl e
           | Inr svs \<Rightarrow> Inr (map service_dict svs)))"

section \<open>core/config.py\<close>

text \<open>
  The four configuration classes are written as plain classes: annotated class attributes,
  no decorator, no \<open>__init__\<close>. Calling such a class without arguments gives an instance
  that shows the class attributes; calling it with arguments raises \<open>TypeError\<close>. An
  instance of a provider class is the list of its attributes with their values.
\<close>

type_synonym pyinstance = "(pystr \<times> pyval) list"

definition class_call :: "pystr \<Rightarrow> pyinstance \<Rightarrow> (pystr \<times> pyval) list \<Rightarrow> exn + pyinstance" where
  "class_call cls_name class_attrs kwargs =
     (if kwargs = [] then Inr class_attrs
      else Inl (TypeError (cls_name @ str_of ''() takes no arguments'')))"

definition OpenAIConfig_attrs :: pyinstance where
  "OpenAIConfig_attrs = [(str_of ''api_key'', PStr []),
                         (str_of ''model'', PStr (str_of ''gpt-4o-mini'')),
                         (str_of ''base_url'', PStr [])]"

definition OllamaConfig_attrs :: pyinstance where
  "OllamaConfig_attrs = [(str_of ''base_url'', PStr (str_of ''http://127.0.0.1:11434'')),
                         (str_of ''model'', PStr (str_of ''llama3.1:8b''))]"

definition OpenAICompatConfig_attrs :: pyinstance where
  "OpenAICompatConfig_attrs = [(str_of ''base_url'', PStr (str_of ''http://127.0.0.1:8080'')),
                               (str_of ''api_key'', PStr []),
                               (str_of ''model'', PStr [])]"

definition OpenAIConfig :: "(pystr \<times> pyval) list \<Rightarrow> exn + pyinstance" where
  "OpenAIConfig kwargs = class_call (str_of ''OpenAIConfig'') OpenAIConfig_attrs kwargs"

definition OllamaConfig :: "(pystr \<times> pyval) list \<Rightarrow> exn + pyinstance" where
  "OllamaConfig kwargs = class_call (str_of ''OllamaConfig'') OllamaConfig_attrs kwargs"

definition OpenAICompatConfig :: "(pystr \<times> pyval) list \<Rightarrow> exn + pyinstance" where
  "OpenAICompatConfig kwargs =
     class_call (str_of ''OpenAICompatConfig'') OpenAICompatConfig_attrs kwargs"

text \<open>
  An \<open>AppConfig\<close> instance. The class attributes \<open>openai\<close>, \<open>ollama\<close> and \<open>openai_compat\<close>
  hold the objects that \<open>field(default_factory=...)\<close> returns, named here by their factory;
  \<open>mappings\<close> is \<open>None\<close> in the class.
\<close>

datatype provider_attr = Field pystr | Provider pyinstance

record AppConfig =
  theme :: pystr
  openai :: provider_attr
  ollama :: provider_attr
  openai_compat :: provider_attr
  last_ble_address :: pystr
  mappings :: "(pystr \<times> pyval) list option"

text \<open>\<open>AppConfig()\<close>: the instance shows the class attributes. Nothing calls \<open>__post_init__\<close>.\<close>

definition AppConfig_new :: AppConfig where
  "AppConfig_new =
     \<lparr>theme = str_of ''dark'',
      openai = Field (str_of ''OpenAIConfig''),
      ollama = Field (str_of ''OllamaConfig''),
      openai_compat = Field (str_of ''OpenAICompatConfig''),
      last_ble_address = [],
      mappings = None\<rparr>"

text \<open>\<open>AppConfig(theme=..., openai=..., ...)\<close>: the class takes no arguments.\<close>

definition AppConfig_with ::
  "pystr \<Rightarrow> pyinstance \<Rightarrow> pyinstance \<Rightarrow> pyinstance \<Rightarrow> pystr \<Rightarrow> (pystr \<times> pyval) list option
     \<Rightarrow> exn + AppConfig" where
  "AppConfig_with th oa ol oc addr mp = Inl (TypeError (str_of ''AppConfig() takes no arguments''))"

text \<open>The table that the method \<open>__post_init__\<close> installs when it is called on an instance
  without mappings.\<close>

definition default_mappings :: "(pystr \<times> pystr list) list" where
  "default_mappings =
     [(str_of ''toggle_listen'', [str_of ''button_single'']),
      (str_of ''send_last_transcript'', [str_of ''button_double'']),
      (str_of ''cycle_llm'', [str_of ''button_long''])]"

definition mappings_value :: "(pystr \<times> pystr list) list \<Rightarrow> (pystr \<times> pyval) list" where
  "mappings_value m = map (\<lambda>(action, triggers). (action, PList (map PStr triggers))) m"

definition post_init :: "AppConfig \<Rightarrow> AppConfig" where
  "post_init cfg =
     (case mappings cfg of
        None \<Rightarrow> cfg\<lparr>mappings := Some (mappings_value default_mappings)\<rparr>
      | Some d \<Rightarrow> cfg)"

text \<open>
  What \<open>load_config\<close> finds at the path: no file; a file whose reading or parsing raises
  (not UTF-8, not JSON); or a file that \<open>json.loads\<close> turns into a value.
\<close>

datatype config_file = NoFile | Unreadable | Parsed pyval

text \<open>
  \<open>d.get(key, default)\<close> on a dict, and the helper \<open>_dc\<close> of \<open>load_config\<close>, which takes
  the default when the value is no dict or the class refuses it.
\<close>

definition dict_get :: "(pystr \<times> pyval) list \<Rightarrow> pystr \<Rightarrow> pyval \<Rightarrow> pyval" where
  "dict_get d key dflt = (case map_of d key of Some v \<Rightarrow> v | None \<Rightarrow> dflt)"

definition dc ::
  "((pystr \<times> pyval) list \<Rightarrow> exn + pyinstance) \<Rightarrow> pyval \<Rightarrow> pyinstance \<Rightarrow> pyinstance" where
  "dc dc_cls val dflt =
     (case val of
        PDict kwargs \<Rightarrow> (case dc_cls kwargs of Inl e \<Rightarrow> dflt | Inr c \<Rightarrow> c)
      | _ \<Rightarrow> dflt)"

text \<open>
  \<open>str(x)\<close> is \<open>x\<close> for a string; for any other value it is the printed form, taken as the
  parameter \<open>repr\<close>. \<open>type_name\<close> is the name of the class of a value, as the message of an
  \<open>AttributeError\<close> shows it.
\<close>

definition py_str :: "(pyval \<Rightarrow> pystr) \<Rightarrow> pyval \<Rightarrow> pystr" where
  "py_str repr v = (case v of PStr t \<Rightarrow> t | _ \<Rightarrow> repr v)"

fun type_name :: "pyval \<Rightarrow> pystr" where
  "type_name PNone = str_of ''NoneType''"
| "type_name (PBool b) = str_of ''bool''"
| "type_name (PNum n) = str_of ''int''"
| "type_name (PStr t) = str_of ''str''"
| "type_name (PList xs) = str_of ''list''"
| "type_name (PDict kvs) = str_of ''dict''"

text \<open>
  \<open>load_config\<close>. After a successful parse the code calls \<open>raw.get\<close> outside any \<open>try\<close>: only
  a dict has that method, and on every other value the first call, for the theme, raises
  \<open>AttributeError\<close>. On a dict the arguments are computed, the default \<open>OpenAIConfig()\<close> and
  its like being made without arguments, and then \<open>AppConfig\<close> is called with them.
\<close>

definition load_config :: "(pyval \<Rightarrow> pystr) \<Rightarrow> config_file \<Rightarrow> exn + AppConfig" where
  "load_config repr file =
     (case file of
        NoFile \<Rightarrow> Inr AppConfig_new
      | Unreadable \<Rightarrow> Inr AppConfig_new
      | Parsed raw \<Rightarrow>
          (case raw of
             PDict d \<Rightarrow>
               AppConfig_with
                 (py_str repr (dict_get d (str_of ''theme'') (PStr (str_of ''dark''))))
                 (dc OpenAIConfig (dict_get d (str_of ''openai'') PNone) OpenAIConfig_attrs)
                 (dc OllamaConfig (dict_get d (str_of ''ollama'') PNone) OllamaConfig_attrs)
                 (dc OpenAICompatConfig (dict_get d (str_of ''openai_compat'') PNone)
                     OpenAICompatConfig_attrs)
                 (py_str repr (dict_get d (str_of ''last_ble_address'') (PStr [])))
                 (case dict_get d (str_of ''mappings'') PNone of
                    PDict mp \<Rightarrow> Some mp
                  | _ \<Rightarrow> None)
           | _ \<Rightarrow> Inl (AttributeError (type_name raw))))"

section \<open>ui/main\_window.py: the mapping table\<close>










subsection \<open>The mapping table of the specification\<close>








section \<open>Properties of the event bus\<close>

lemma for_handlers_result:
  "for_handlers impl hs payload w = (Inr (), hs, run_all impl hs payload w)"
proof (induction hs arbitrary: w)
  case Nil
  show ?case by simp
next
  case (Cons h hs)
  obtain r w' where step: "impl h payload w = (r, w')"
    by (cases "impl h payload w")
  show ?case
    by (cases r) (simp_all add: step Cons.IH)
qed


text \<open>
  C1. When a topic has the handlers \<open>hs\<close> subscribed, \<open>publish\<close> calls every one of them, in
  subscription order, whatever each of them does: a handler that raises is followed by the
  next one, which starts in the world the failed handler left, and \<open>publish\<close> itself returns
  normally to the publisher.
\<close>

theorem publish_calls_all_handlers:
  assumes "subs w topic = Some hs"
  shows "publish impl topic payload w = (Inr (), hs, run_all impl hs payload w)"
  using assms by (simp add: publish_def for_handlers_result)

theorem publish_calls_all_handlers_witness:
  "subs (subscribe [1] 12 (subscribe [1] 11 (subscribe [1] 10 \<lparr>subs = Map.empty, app = []\<rparr>))) [1]
     = Some [10, 11, 12]
   \<and> publish (\<lambda>h p v. (if h = 11 then Inl (OtherError 7) else Inr (), v\<lparr>app := app v @ [h]\<rparr>))
       [1] PNone
       (subscribe [1] 12 (subscribe [1] 11 (subscribe [1] 10 \<lparr>subs = Map.empty, app = []\<rparr>)))
     = (Inr (), [10, 11, 12],
        (subscribe [1] 12 (subscribe [1] 11 (subscribe [1] 10 \<lparr>subs = Map.empty, app = []\<rparr>)))
          \<lparr>app := [10, 11, 12]\<rparr>)"
proof -
  let ?w = "subscribe [1] 12 (subscribe [1] 11 (subscribe [1] 10
              \<lparr>subs = Map.empty, app = ([]::hid list)\<rparr>))"
  have s: "subs ?w [1] = Some [10, 11, 12]"
    by (simp add: subscribe_def)
  show ?thesis
    using publish_calls_all_handlers [OF s,
        of "\<lambda>h p v. (if h = 11 then Inl (OtherError 7) else Inr (), v\<lparr>app := app v @ [h]\<rparr>)" PNone]
    by (simp add: subscribe_def)
qed

text \<open>
  C10. \<open>publish\<close> walks the list of handlers that the topic had when the call began. Whatever
  the handlers do to the subscription table meanwhile, the handlers called are exactly those,
  so a handler that is subscribed to the topic during the publish is not called by it.
\<close>

theorem publish_iterates_snapshot:
  assumes "subs w topic = Some hs"
  shows "fst (snd (publish impl topic payload w)) = hs
         \<and> (\<forall>h'. h' \<notin> set hs \<longrightarrow> h' \<notin> set (fst (snd (publish impl topic payload w))))"
  using assms by (simp add: publish_def for_handlers_result)

theorem publish_iterates_snapshot_witness:
  "subs (subscribe [1] 10 \<lparr>subs = Map.empty, app = ()\<rparr>) [1] = Some [10]
   \<and> fst (snd (publish (\<lambda>h p v. (Inr (), if h = 10 then subscribe [1] 20 v else v)) [1] PNone
                 (subscribe [1] 10 \<lparr>subs = Map.empty, app = ()\<rparr>))) = [10]
   \<and> subs (snd (snd (publish (\<lambda>h p v. (Inr (), if h = 10 then subscribe [1] 20 v else v)) [1] PNone
                 (subscribe [1] 10 \<lparr>subs = Map.empty, app = ()\<rparr>)))) [1] = Some [10, 20]"
proof -
  let ?w = "subscribe [1] 10 \<lparr>subs = Map.empty, app = ()\<rparr>"
  let ?impl = "\<lambda>h (p::pyval) (v::unit world). (Inr () :: exn + unit, if h = 10 then subscribe [1] 20 v else v)"
  have s: "subs ?w [1] = Some [10]"
    by (simp add: subscribe_def)
  have later: "subs (snd (snd (publish ?impl [1] PNone ?w))) [1] = Some [10, 20]"
    by (simp add: publish_def subscribe_def)
  show ?thesis
    using publish_iterates_snapshot [OF s, of ?impl PNone] s later by simp
qed

section \<open>Properties of the action router\<close>

text \<open>
  C8. Dispatching an action name that has no handler returns normally and leaves the
  application state as it was. After two registrations under one name, dispatch runs the
  handler registered last.
\<close>

theorem dispatch_unregistered_and_last_registration:
  "(r action = None \<longrightarrow> dispatch r action payload s = (Inr (), s))
   \<and> dispatch (register_action_handler action h2 (register_action_handler action h1 r))
        action payload s
     = h2 (if truthy payload then payload else PDict [(str_of ''action'', PStr action)]) s"
  by (simp add: dispatch_def register_action_handler_def)

theorem dispatch_unregistered_and_last_registration_witness:
  "dispatch Map.empty [5] PNone (0::nat) = (Inr (), 0)
   \<and> dispatch (register_action_handler [5] (\<lambda>p s. (Inr (), 2))
                 (register_action_handler [5] (\<lambda>p s. (Inr (), 1)) Map.empty))
        [5] PNone (0::nat) = (Inr (), 2)"
  using dispatch_unregistered_and_last_registration
          [of Map.empty "[5]" PNone "0::nat" "\<lambda>p s. (Inr (), 2)" "\<lambda>p s. (Inr (), 1)"]
  by simp

text \<open>
  C9. A registered handler that is dispatched with an explicit empty dict receives
  \<open>{"action": action}\<close>; so does every other payload that Python counts as false. The payload
  a handler receives (recorded here by a handler that stores its argument) is never the
  empty dict.
\<close>

theorem dispatch_defaults_falsy_payload:
  "(r action = Some h \<longrightarrow>
      dispatch r action (PDict []) s = h (PDict [(str_of ''action'', PStr action)]) s
      \<and> (\<not> truthy payload \<longrightarrow>
           dispatch r action payload s = h (PDict [(str_of ''action'', PStr action)]) s))
   \<and> snd (dispatch (register_action_handler action (\<lambda>p s. (Inr (), p)) r') action payload s')
       \<noteq> PDict []"
  by (auto simp add: dispatch_def register_action_handler_def)

theorem dispatch_defaults_falsy_payload_witness:
  "snd (dispatch (register_action_handler (str_of ''noop'') (\<lambda>p s. (Inr (), p)) Map.empty)
          (str_of ''noop'') (PDict []) PNone)
     = PDict [(str_of ''action'', PStr (str_of ''noop''))]"
  using dispatch_defaults_falsy_payload
          [of "register_action_handler (str_of ''noop'') (\<lambda>p s. (Inr (), p)) Map.empty"
              "str_of ''noop''" "\<lambda>p s. (Inr (), p)" PNone "PDict []" Map.empty PNone]
  by (simp add: register_action_handler_def)

section \<open>Properties of the notification callback\<close>

text \<open>
  C2. For every payload the callback schedules the \<open>raw_notify\<close> publish first and after it at
  most one more publish, which is never another \<open>raw_notify\<close>. The second publish exists
  exactly when the payload, decoded as UTF-8 with undecodable bytes dropped, then stripped and
  lower-cased, is one of the nine tokens, and its topic is \<open>button_single\<close>, \<open>button_double\<close>
  or \<open>button_long\<close> according to the token's group.
\<close>

theorem cb_raw_then_at_most_one_gesture:
  "\<exists>g. cb ulower char_uuid data
         = (str_of ''raw_notify'',
              PDict [(str_of ''uuid'', PStr char_uuid), (str_of ''data_hex'', PStr (hex data))]) # g
     \<and> length g \<le> 1
     \<and> str_of ''raw_notify'' \<notin> fst ` set g
     \<and> (g \<noteq> [] \<longleftrightarrow>
          lower ulower (strip (decode data))
            \<in> {str_of ''single'', str_of ''button_single'', str_of ''tap'',
                str_of ''double'', str_of ''button_double'', str_of ''dbl'',
                str_of ''long'', str_of ''button_long'', str_of ''hold''})
     \<and> (lower ulower (strip (decode data))
            \<in> {str_of ''single'', str_of ''button_single'', str_of ''tap''}
          \<longrightarrow> map fst g = [str_of ''button_single''])
     \<and> (lower ulower (strip (decode data))
            \<in> {str_of ''double'', str_of ''button_double'', str_of ''dbl''}
          \<longrightarrow> map fst g = [str_of ''button_double''])
     \<and> (lower ulower (strip (decode data))
            \<in> {str_of ''long'', str_of ''button_long'', str_of ''hold''}
          \<longrightarrow> map fst g = [str_of ''button_long''])"
proof -
  let ?txt = "lower ulower (strip (decode data))"
  let ?raw = "(str_of ''raw_notify'',
                 PDict [(str_of ''uuid'', PStr char_uuid), (str_of ''data_hex'', PStr (hex data))])"
  have names: "str_of ''raw_notify'' \<noteq> str_of ''button_single''"
      "str_of ''raw_notify'' \<noteq> str_of ''button_double''"
      "str_of ''raw_notify'' \<noteq> str_of ''button_long''"
      "str_of ''button_single'' \<noteq> str_of ''button_double''"
      "str_of ''button_single'' \<noteq> str_of ''button_long''"
      "str_of ''button_double'' \<noteq> str_of ''button_long''"
    by (simp_all add: str_of_def)
  have tokens: "str_of ''single'' \<noteq> str_of ''double''" "str_of ''single'' \<noteq> str_of ''button_double''"
      "str_of ''single'' \<noteq> str_of ''dbl''" "str_of ''single'' \<noteq> str_of ''long''"
      "str_of ''single'' \<noteq> str_of ''button_long''" "str_of ''single'' \<noteq> str_of ''hold''"
      "str_of ''button_single'' \<noteq> str_of ''double''" "str_of ''button_single'' \<noteq> str_of ''dbl''"
      "str_of ''button_single'' \<noteq> str_of ''long''" "str_of ''button_single'' \<noteq> str_of ''hold''"
      "str_of ''tap'' \<noteq> str_of ''double''" "str_of ''tap'' \<noteq> str_of ''button_double''"
      "str_of ''tap'' \<noteq> str_of ''dbl''" "str_of ''tap'' \<noteq> str_of ''long''"
      "str_of ''tap'' \<noteq> str_of ''button_long''" "str_of ''tap'' \<noteq> str_of ''hold''"
      "str_of ''double'' \<noteq> str_of ''long''" "str_of ''double'' \<noteq> str_of ''button_long''"
      "str_of ''double'' \<noteq> str_of ''hold''" "str_of ''button_double'' \<noteq> str_of ''long''"
      "str_of ''button_double'' \<noteq> str_of ''hold''"
      "str_of ''dbl'' \<noteq> str_of ''long''" "str_of ''dbl'' \<noteq> str_of ''button_long''"
      "str_of ''dbl'' \<noteq> str_of ''hold''"
    by (simp_all add: str_of_def)
  consider (single) "?txt \<in> {str_of ''single'', str_of ''button_single'', str_of ''tap''}"
    | (double) "?txt \<notin> {str_of ''single'', str_of ''button_single'', str_of ''tap''}"
               "?txt \<in> {str_of ''double'', str_of ''button_double'', str_of ''dbl''}"
    | (long) "?txt \<notin> {str_of ''single'', str_of ''button_single'', str_of ''tap''}"
             "?txt \<notin> {str_of ''double'', str_of ''button_double'', str_of ''dbl''}"
             "?txt \<in> {str_of ''long'', str_of ''button_long'', str_of ''hold''}"
    | (none) "?txt \<notin> {str_of ''single'', str_of ''button_single'', str_of ''tap''}"
             "?txt \<notin> {str_of ''double'', str_of ''button_double'', str_of ''dbl''}"
             "?txt \<notin> {str_of ''long'', str_of ''button_long'', str_of ''hold''}"
    by blast
  then show ?thesis
  proof cases
    case single
    have "cb ulower char_uuid data
            = ?raw # [(str_of ''button_single'',
                        PDict [(str_of ''uuid'', PStr char_uuid), (str_of ''text'', PStr ?txt)])]"
      using single by (simp add: cb_def Let_def)
    moreover have "?txt \<notin> {str_of ''double'', str_of ''button_double'', str_of ''dbl''}"
        "?txt \<notin> {str_of ''long'', str_of ''button_long'', str_of ''hold''}"
      using single names tokens by auto
    ultimately show ?thesis
      using single names by auto
  next
    case double
    have "cb ulower char_uuid data
            = ?raw # [(str_of ''button_double'',
                        PDict [(str_of ''uuid'', PStr char_uuid), (str_of ''text'', PStr ?txt)])]"
      using double by (simp add: cb_def Let_def)
    moreover have "?txt \<notin> {str_of ''long'', str_of ''button_long'', str_of ''hold''}"
      using double names tokens by auto
    ultimately show ?thesis
      using double names by auto
  next
    case long
    have "cb ulower char_uuid data
            = ?raw # [(str_of ''button_long'',
                        PDict [(str_of ''uuid'', PStr char_uuid), (str_of ''text'', PStr ?txt)])]"
      using long by (simp add: cb_def Let_def)
    then show ?thesis
      using long names by auto
  next
    case none
    have "cb ulower char_uuid data = ?raw # []"
      using none by (simp add: cb_def Let_def)
    then show ?thesis
      using none by auto
  qed
qed

theorem cb_raw_then_at_most_one_gesture_witness:
  "lower (\<lambda>s. s) (strip (decode [0xFF, 0x20, 0x44, 0x42, 0x4C, 0x0A])) = str_of ''dbl''
   \<and> map fst (cb (\<lambda>s. s) [1] [0xFF, 0x20, 0x44, 0x42, 0x4C, 0x0A])
       = [str_of ''raw_notify'', str_of ''button_double'']"
proof -
  let ?data = "[0xFF, 0x20, 0x44, 0x42, 0x4C, 0x0A] :: 8 word list"
  have t: "lower (\<lambda>s. s) (strip (decode ?data)) = str_of ''dbl''"
    by (simp add: decode_def strip_def isspace_def lower_def str_of_def)
  obtain g where g: "cb (\<lambda>s. s) [1] ?data
         = (str_of ''raw_notify'',
              PDict [(str_of ''uuid'', PStr [1]), (str_of ''data_hex'', PStr (hex ?data))]) # g"
      "lower (\<lambda>s. s) (strip (decode ?data))
            \<in> {str_of ''double'', str_of ''button_double'', str_of ''dbl''}
          \<longrightarrow> map fst g = [str_of ''button_double'']"
    using cb_raw_then_at_most_one_gesture [of "\<lambda>s. s" "[1]" ?data]
    by (elim exE conjE) (rule that, assumption+)
  from g(2) t have "map fst g = [str_of ''button_double'']"
    by simp
  with g(1) t show ?thesis
    by simp
qed

section \<open>Properties of the BLE manager\<close>

lemma map_of_dict_set: "map_of (dict_set k v kvs) = (map_of kvs)(k \<mapsto> v)"
  by (induction kvs) auto

lemma keys_dict_set: "fst ` set (dict_set k v kvs) = insert k (fst ` set kvs)"
  by (simp add: dom_map_of_conv_image_fst [symmetric] map_of_dict_set)

lemma fold_detection_snoc:
  "fold detection_cb (seen @ [x]) acc
     = dict_set (dev_address (fst x)) x (fold detection_cb seen acc)"
  by (simp add: detection_cb_def)

lemma keys_found:
  "fst ` set (fold detection_cb seen []) = (\<lambda>x. dev_address (fst x)) ` set seen"
proof (induction seen rule: rev_induct)
  case Nil
  show ?case by simp
next
  case (snoc x seen)
  then show ?case
    by (simp only: fold_detection_snoc keys_dict_set) auto
qed

lemma collect_raises:
  "found \<noteq> [] \<Longrightarrow>
     collect found out = Inl (TypeError (str_of ''DiscoveredDevice() takes no arguments''))"
  by (cases found) (simp_all add: DiscoveredDevice_call_def)

lemma scan_raises_for_any_advertisement:
  assumes "seen \<noteq> []"
  shows "scan (Observed seen) = Inl (TypeError (str_of ''DiscoveredDevice() takes no arguments''))"
proof -
  have "fst ` set (fold detection_cb seen []) \<noteq> {}"
    using assms by (simp add: keys_found)
  then have "fold detection_cb seen [] \<noteq> []"
    by auto
  then show ?thesis
    by (simp add: scan_def collect_raises)
qed

lemma scan_nothing_observed: "scan (Observed []) = Inr []"
  by (simp add: scan_def sort_by_rssi_def)

text \<open>
  C4. With the advertisements A (RSSI -40), B (-70) and again A (-38) observed, \<open>scan\<close> does
  not return the two entries A (-38), B (-70): the first call of \<open>DiscoveredDevice\<close> with
  keyword arguments raises \<open>TypeError\<close>, and the error leaves \<open>scan\<close>. The same happens for
  every observation that is not empty (\<open>scan_raises_for_any_advertisement\<close>); only a scan
  that observes nothing returns, with the empty list (\<open>scan_nothing_observed\<close>).
\<close>

theorem scan_observed_raises_type_error:
  "scan (Observed
      [(\<lparr>dev_address = [65], dev_name = Some [97]\<rparr>, \<lparr>local_name = None, adv_rssi = Some (- 40)\<rparr>),
       (\<lparr>dev_address = [66], dev_name = None\<rparr>, \<lparr>local_name = Some [98], adv_rssi = Some (- 70)\<rparr>),
       (\<lparr>dev_address = [65], dev_name = Some [97]\<rparr>, \<lparr>local_name = None, adv_rssi = Some (- 38)\<rparr>)])
   = Inl (TypeError (str_of ''DiscoveredDevice() takes no arguments''))"
  by (simp add: scan_def detection_cb_def DiscoveredDevice_call_def)

lemma disconnect_clears: "client (fst (snd (disconnect T m))) = None"
  by (simp add: disconnect_def split: option.splits)

text \<open>
  C3. When \<open>connect\<close> gets to its first attempt and that attempt raises, it sleeps 500 ms,
  resolves the address again and makes one more attempt, and no third one. If the second
  attempt returns a client that reports to be connected, \<open>connect\<close> returns that client and
  keeps it. If the second attempt raises, or the second resolution does, \<open>connect\<close> raises
  the error of the first attempt.
\<close>

theorem connect_retries_once_first_error:
  assumes "fst (disconnect T m) = Inr ()"
      and "client_connect T 0 (first_target T addr timeout) timeout = Inl first_err"
  shows "(\<forall>device2 c2.
            find_device_by_address T 1 addr timeout = Inr device2
            \<and> client_connect T 1 (device_or device2 addr) timeout = Inr c2
            \<and> is_connected c2
          \<longrightarrow> fst (connect T addr timeout m) = Inr c2
              \<and> client (fst (snd (connect T addr timeout m))) = Some c2
              \<and> snd (snd (connect T addr timeout m))
                  = snd (snd (disconnect T m))
                    @ [CallFind addr timeout, CallConnect (first_target T addr timeout) timeout,
                       CallSleep 500, CallFind addr timeout,
                       CallConnect (device_or device2 addr) timeout])
       \<and> (\<forall>device2 e2.
            find_device_by_address T 1 addr timeout = Inr device2
            \<and> client_connect T 1 (device_or device2 addr) timeout = Inl e2
          \<longrightarrow> fst (connect T addr timeout m) = Inl first_err
              \<and> client (fst (snd (connect T addr timeout m))) = None
              \<and> snd (snd (connect T addr timeout m))
                  = snd (snd (disconnect T m))
                    @ [CallFind addr timeout, CallConnect (first_target T addr timeout) timeout,
                       CallSleep 500, CallFind addr timeout,
                       CallConnect (device_or device2 addr) timeout])
       \<and> (\<forall>e2.
            find_device_by_address T 1 addr timeout = Inl e2
          \<longrightarrow> fst (connect T addr timeout m) = Inl first_err
              \<and> client (fst (snd (connect T addr timeout m))) = None
              \<and> snd (snd (connect T addr timeout m))
                  = snd (snd (disconnect T m))
                    @ [CallFind addr timeout, CallConnect (first_target T addr timeout) timeout,
                       CallSleep 500, CallFind addr timeout])"
proof -
  obtain m1 calls0 where d: "disconnect T m = (Inr (), m1, calls0)"
    using assms(1) by (cases "disconnect T m") auto
  have m1: "client m1 = None"
    using disconnect_clears [of T m] by (simp add: d)
  show ?thesis
    using assms(2) m1
    by (simp add: connect_def d Let_def connected_or_raise_def)
qed

theorem connect_retries_once_first_error_witness:
  "fst (connect \<lparr>find_device_by_address = (\<lambda>k a t. Inr None),
                  client_connect = (\<lambda>k tg t. if k = 0 then Inl (OtherError 1)
                                    else Inr \<lparr>is_connected = True, services = Inr []\<rparr>),
                  client_disconnect = (\<lambda>c. None)\<rparr>
          [65] 12000 \<lparr>client = None\<rparr>)
     = Inr \<lparr>is_connected = True, services = Inr []\<rparr>
   \<and> connect \<lparr>find_device_by_address = (\<lambda>k a t. Inr None),
              client_connect = (\<lambda>k tg t. Inl (OtherError (Suc k))),
              client_disconnect = (\<lambda>c. None)\<rparr>
          [65] 12000 \<lparr>client = None\<rparr>
     = (Inl (OtherError 1), \<lparr>client = None\<rparr>,
        [CallFind [65] 12000, CallConnect (ByAddress [65]) 12000, CallSleep 500,
         CallFind [65] 12000, CallConnect (ByAddress [65]) 12000])"
proof -
  let ?ok = "\<lparr>find_device_by_address = (\<lambda>k a t. Inr None),
              client_connect = (\<lambda>k tg t. if k = 0 then Inl (OtherError 1)
                                else Inr \<lparr>is_connected = True, services = Inr []\<rparr>),
              client_disconnect = (\<lambda>c. None)\<rparr>"
  let ?bad = "\<lparr>find_device_by_address = (\<lambda>k a t. Inr None),
               client_connect = (\<lambda>k tg t. Inl (OtherError (Suc k))),
               client_disconnect = (\<lambda>c. None)\<rparr>"
  let ?m = "\<lparr>client = None\<rparr>"
  have d1: "fst (disconnect ?ok ?m) = Inr ()" and d2: "fst (disconnect ?bad ?m) = Inr ()"
    by (simp_all add: disconnect_def)
  have a1: "client_connect ?ok 0 (first_target ?ok [65] 12000) 12000 = Inl (OtherError 1)"
    and a2: "client_connect ?bad 0 (first_target ?bad [65] 12000) 12000 = Inl (OtherError 1)"
    by simp_all
  have first: "fst (connect ?ok [65] 12000 ?m) = Inr \<lparr>is_connected = True, services = Inr []\<rparr>"
    using connect_retries_once_first_error [OF d1 a1] by simp
  have second: "connect ?bad [65] 12000 ?m
     = (Inl (OtherError 1), \<lparr>client = None\<rparr>,
        [CallFind [65] 12000, CallConnect (ByAddress [65]) 12000, CallSleep 500,
         CallFind [65] 12000, CallConnect (ByAddress [65]) 12000])"
    using connect_retries_once_first_error [OF d2 a2]
    by (simp add: disconnect_def first_target_def device_or_def prod_eq_iff)
  from first second show ?thesis
    by simp
qed

text \<open>
  The guard after the attempts: a client that an attempt returned but that does not report to
  be connected makes \<open>connect\<close> raise a \<open>RuntimeError\<close> and keep no client.
\<close>

lemma connect_not_connected_raises:
  assumes "fst (disconnect T m) = Inr ()"
      and "client_connect T 0 (first_target T addr timeout) timeout = Inr c"
      and "\<not> is_connected c"
  shows "fst (connect T addr timeout m) = Inl (RuntimeError (str_of ''Failed to connect to '' @ addr))"
proof -
  obtain m1 calls0 where d: "disconnect T m = (Inr (), m1, calls0)"
    using assms(1) by (cases "disconnect T m") auto
  show ?thesis
    using assms(2,3) by (simp add: connect_def d Let_def connected_or_raise_def)
qed

section \<open>Properties of the GATT summary\<close>

lemma gatt_summary_always_raises: "gatt_summary m = Inl (AttributeError (str_of ''method''))"
  by (simp add: gatt_summary_def ble_client_def)

text \<open>
  C7. On a manager that holds no client, \<open>gatt_summary\<close> does not return the empty list: it
  raises \<open>AttributeError\<close>. The name \<open>client\<close> holds the bound method, which is not \<open>None\<close>,
  so the early return is not taken, and \<open>client.services\<close> fails. The same happens in every
  state of the manager (\<open>gatt_summary_always_raises\<close>).
\<close>

theorem gatt_summary_not_connected_raises:
  "gatt_summary \<lparr>client = None\<rparr> = Inl (AttributeError (str_of ''method''))"
  by (simp add: gatt_summary_def ble_client_def)

section \<open>Properties of the configuration loader\<close>

lemma load_config_without_file:
  "load_config repr NoFile = Inr AppConfig_new
   \<and> load_config repr Unreadable = Inr AppConfig_new
   \<and> mappings AppConfig_new = None
   \<and> mappings (post_init AppConfig_new)
       = Some [(str_of ''toggle_listen'', PList [PStr (str_of ''button_single'')]),
               (str_of ''send_last_transcript'', PList [PStr (str_of ''button_double'')]),
               (str_of ''cycle_llm'', PList [PStr (str_of ''button_long'')])]"
  by (simp add: load_config_def AppConfig_new_def post_init_def mappings_value_def
        default_mappings_def)

lemma load_config_object_raises:
  "load_config repr (Parsed (PDict d)) = Inl (TypeError (str_of ''AppConfig() takes no arguments''))"
  by (simp add: load_config_def AppConfig_with_def)

text \<open>
  C6. A configuration file that holds well-formed JSON which is not an object, here the
  empty array, is not answered with the defaults: \<open>load_config\<close> raises \<open>AttributeError\<close>.
  (A missing file and a file that cannot be read or parsed give \<open>AppConfig()\<close>:
  \<open>load_config_without_file\<close>.)
\<close>

theorem load_config_non_object_raises:
  "load_config repr (Parsed (PList [])) = Inl (AttributeError (str_of ''list''))"
  by (simp add: load_config_def)

section \<open>Properties of the mapping table\<close>





















end
